theory Spec2Isabelle
  imports Complex_Main
begin

section \<open>Anaerobic co-digestion model: the Modified Gompertz equation\<close>

text \<open>
  A shallow embedding of \<^verbatim>\<open>anaerobic_codigestion_model.py\<close>: the two parameter
  tables, the mixture-property calculator, the Gompertz curve evaluator and the
  simulation driver. Printing and plotting are not modelled.

  Numbers. Python floats are modelled as \<^typ>\<open>real\<close>: every arithmetic operation is
  the exact one, and \<^verbatim>\<open>np.exp\<close> is \<^const>\<open>exp\<close>. Rounding, overflow and underflow of
  IEEE-754 doubles are outside this model. Python integers are \<^typ>\<open>int\<close>; the
  conversion of an integer to a float is exact here, where Python raises
  \<open>OverflowError\<close> for an integer beyond the range of doubles.

  Exceptions. A Python exception is a value \<open>Inl err\<close> of a sum type; a normal return
  is \<open>Inr v\<close>. Division is the one arithmetic operation of the module that can raise,
  so it is a function of its own (\<open>truediv\<close>), because \<open>x / 0 = 0\<close> in HOL.

  Strings. A Python string is a \<^typ>\<open>string\<close>; the accented letters of the
  descriptions are written by their code point (\<open>CHR 0xED\<close> is i-acute).
\<close>

subsection \<open>Exceptions and division\<close>

datatype message =
    Unknown_ratio string "string list"
      \<comment> \<open>the f-string of \<^verbatim>\<open>simulate\<close>, line 208: the requested name and
          \<^verbatim>\<open>list(params.keys())\<close>, the two values it interpolates\<close>
  | Negative_samples int
      \<comment> \<open>\<^verbatim>\<open>np.linspace\<close> called with a negative number of samples\<close>

datatype error =
    ZeroDivisionError
  | ValueError message

definition truediv :: "real \<Rightarrow> real \<Rightarrow> error + real" where
  \<comment> \<open>Python's \<^verbatim>\<open>a / b\<close> on Python numbers\<close>
  "truediv a b = (if b = 0 then Inl ZeroDivisionError else Inr (a / b))"

subsection \<open>Parameter tables\<close>

record properties =
  pH :: real
  TS_percent :: real
  VS_percent :: real
  C_N :: real
  sCOD_g_L :: real
  tCOD_g_L :: real

record substrates =
  FW :: properties
  CM :: properties

definition SUBSTRATE_PROPERTIES :: substrates where
  "SUBSTRATE_PROPERTIES =
     \<lparr> FW = \<lparr> pH = 4.9, TS_percent = 27.4, VS_percent = 91.20, C_N = 20.79,
              sCOD_g_L = 74.1, tCOD_g_L = 205.8 \<rparr>,
       CM = \<lparr> pH = 7.4, TS_percent = 19.2, VS_percent = 83.07, C_N = 8.22,
              sCOD_g_L = 13.5, tCOD_g_L = 51.2 \<rparr> \<rparr>"

record param_set =
  G0 :: real
  k_max :: real
  lambda :: real
  FW_percent :: real
  description :: string

definition GOMPERTZ_PARAMS :: "(string \<times> param_set) list" where
  \<comment> \<open>a dict in insertion order: the keys are distinct\<close>
  "GOMPERTZ_PARAMS =
     [ (''Ratio-8_0'', \<lparr> G0 = 139.75, k_max = 9.96, lambda = 0.77, FW_percent = 100.0,
          description = ''Res'' @ [CHR 0xED] @ ''duos Alimentares (100%)'' \<rparr>),
       (''Ratio-7_1'', \<lparr> G0 = 226.85, k_max = 19.33, lambda = 0.20, FW_percent = 87.5,
          description = ''RA 87.5% + EB 12.5%'' \<rparr>),
       (''Ratio-6_2'', \<lparr> G0 = 326.53, k_max = 26.96, lambda = 0.43, FW_percent = 75.0,
          description = [CHR 0xD3] @ ''TIMO: RA 75% + EB 25%'' \<rparr>),
       (''Ratio-4_4'', \<lparr> G0 = 279.38, k_max = 20.98, lambda = 0.00, FW_percent = 50.0,
          description = ''Equilibrado: RA 50% + EB 50%'' \<rparr>),
       (''Ratio-2_6'', \<lparr> G0 = 240.81, k_max = 16.74, lambda = 0.00, FW_percent = 25.0,
          description = ''RA 25% + EB 75%'' \<rparr>),
       (''Ratio-1_7'', \<lparr> G0 = 213.48, k_max = 12.82, lambda = 0.00, FW_percent = 12.5,
          description = ''RA 12.5% + EB 87.5%'' \<rparr>) ]"

record simulation_params =
  t_max :: real
  n_points :: int
  TS_target :: real

definition SIMULATION_PARAMS :: simulation_params where
  "SIMULATION_PARAMS = \<lparr> t_max = 25, n_points = 200, TS_target = 8.0 \<rparr>"

subsection \<open>Mixture properties\<close>

fun str_nat :: "nat \<Rightarrow> string" where
  "str_nat n =
     (if n < 10 then [char_of (48 + n)]
      else str_nat (n div 10) @ [char_of (48 + n mod 10)])"

declare str_nat.simps [simp del]

definition str_int :: "int \<Rightarrow> string" where
  \<comment> \<open>how an f-string renders a Python int\<close>
  "str_int i = (if i < 0 then ''-'' @ str_nat (nat (- i)) else str_nat (nat i))"

record mixture = properties +
  ratio :: string
  mix_FW_percent :: real
  mix_CM_percent :: real

definition calc_mixture_properties ::
  "int \<times> int \<Rightarrow> real \<Rightarrow> substrates option \<Rightarrow> error + mixture" where
  "calc_mixture_properties ratio_FW_CM TS_target_arg substrates_arg =
     (let substrates = (case substrates_arg of None \<Rightarrow> SUBSTRATE_PROPERTIES | Some s \<Rightarrow> s);
          FW_parts = fst ratio_FW_CM;
          CM_parts = snd ratio_FW_CM;
          total_parts = FW_parts + CM_parts;
          FW_TS = TS_percent (FW substrates);
          CM_TS = TS_percent (CM substrates);
          FW_mass = of_int FW_parts * FW_TS;
          CM_mass = of_int CM_parts * CM_TS;
          total_mass = FW_mass + CM_mass
      in case truediv FW_mass total_mass of Inl err \<Rightarrow> Inl err | Inr FW_frac \<Rightarrow>
         (case truediv CM_mass total_mass of Inl err \<Rightarrow> Inl err | Inr CM_frac \<Rightarrow>
         (case truediv (of_int FW_parts) (of_int total_parts) of Inl err \<Rightarrow> Inl err | Inr FW_share \<Rightarrow>
         (case truediv (of_int CM_parts) (of_int total_parts) of Inl err \<Rightarrow> Inl err | Inr CM_share \<Rightarrow>
            Inr \<lparr> pH = FW_frac * pH (FW substrates) + CM_frac * pH (CM substrates),
                  TS_percent = TS_target_arg,
                  VS_percent = FW_frac * VS_percent (FW substrates) + CM_frac * VS_percent (CM substrates),
                  C_N = FW_frac * C_N (FW substrates) + CM_frac * C_N (CM substrates),
                  sCOD_g_L = FW_frac * sCOD_g_L (FW substrates) + CM_frac * sCOD_g_L (CM substrates),
                  tCOD_g_L = FW_frac * tCOD_g_L (FW substrates) + CM_frac * tCOD_g_L (CM substrates),
                  ratio = str_int FW_parts @ '':'' @ str_int CM_parts,
                  mix_FW_percent = FW_share * 100.0,
                  mix_CM_percent = CM_share * 100.0 \<rparr>))))"

subsection \<open>The Modified Gompertz equation\<close>

definition gompertz_value :: "real \<Rightarrow> real \<Rightarrow> real \<Rightarrow> real \<Rightarrow> real" where
  \<comment> \<open>lines 166 and 167 once the quotient \<^verbatim>\<open>k_max * e / G0\<close> is there\<close>
  "gompertz_value slope G0_arg lambda_arg t =
     (let exponent = slope * (lambda_arg - t) + 1
      in G0_arg * exp (- exp exponent))"

definition gompertz_curve :: "real \<Rightarrow> real \<Rightarrow> real \<Rightarrow> real \<Rightarrow> error + real" where
  \<comment> \<open>\<^verbatim>\<open>t\<close> a float\<close>
  "gompertz_curve t G0_arg k_max_arg lambda_arg =
     (let e = exp 1
      in case truediv (k_max_arg * e) G0_arg of
           Inl err \<Rightarrow> Inl err
         | Inr slope \<Rightarrow> Inr (gompertz_value slope G0_arg lambda_arg t))"

definition gompertz_curve_array ::
  "real list \<Rightarrow> real \<Rightarrow> real \<Rightarrow> real \<Rightarrow> error + real list" where
  \<comment> \<open>\<^verbatim>\<open>t\<close> an array: the quotient is a Python scalar, computed once; the rest
      is applied to every entry\<close>
  "gompertz_curve_array ts G0_arg k_max_arg lambda_arg =
     (let e = exp 1
      in case truediv (k_max_arg * e) G0_arg of
           Inl err \<Rightarrow> Inl err
         | Inr slope \<Rightarrow> Inr (map (gompertz_value slope G0_arg lambda_arg) ts))"

subsection \<open>The simulation driver\<close>

definition linspace :: "real \<Rightarrow> real \<Rightarrow> int \<Rightarrow> error + real list" where
  \<comment> \<open>numpy's \<^verbatim>\<open>np.linspace(start, stop, num)\<close> with the end point included: a
      negative \<open>num\<close> is a \<open>ValueError\<close>; otherwise \<open>num\<close> samples \<open>i * step + start\<close>
      with \<open>step = (stop - start) / (num - 1)\<close>, the last one set to \<open>stop\<close>\<close>
  "linspace start stop num =
     (if num < 0 then Inl (ValueError (Negative_samples num))
      else
        let n = nat num;
            delta = stop - start;
            y = (if 1 < n
                 then map (\<lambda>i. real i * (delta / real (n - 1)) + start) [0..<n]
                 else map (\<lambda>i. real i * delta + start) [0..<n])
        in Inr (if 1 < n then y[n - 1 := stop] else y))"

definition simulate ::
  "string \<Rightarrow> real option \<Rightarrow> int option \<Rightarrow> (string \<times> param_set) list option
     \<Rightarrow> substrates option \<Rightarrow> error + (real list \<times> real list)" where
  "simulate ratio_name t_max_arg n_points_arg params_arg substrates_arg =
     (let params = (case params_arg of None \<Rightarrow> GOMPERTZ_PARAMS | Some p \<Rightarrow> p);
          t_max_v = (case t_max_arg of None \<Rightarrow> t_max SIMULATION_PARAMS | Some v \<Rightarrow> v);
          n_points_v = (case n_points_arg of None \<Rightarrow> n_points SIMULATION_PARAMS | Some v \<Rightarrow> v)
      in case map_of params ratio_name of
           None \<Rightarrow> Inl (ValueError (Unknown_ratio ratio_name (map fst params)))
         | Some param_set \<Rightarrow>
             (case linspace 0 t_max_v n_points_v of
                Inl err \<Rightarrow> Inl err
              | Inr t \<Rightarrow>
                  (case gompertz_curve_array t (G0 param_set) (k_max param_set) (lambda param_set) of
                     Inl err \<Rightarrow> Inl err
                   | Inr G \<Rightarrow> Inr (t, G))))"

section \<open>The closed form\<close>

text \<open>
  C1. For every time \<open>t\<close>, rate \<open>k_max\<close>, lag \<open>lambda\<close> and ultimate yield \<open>G0\<close> at
  which the closed form is defined (\<open>G0\<close> is its denominator), \<open>gompertz_curve\<close>
  returns exactly \<open>G0 * exp (- exp ((k_max * e / G0) * (lambda - t) + 1))\<close>.
\<close>

theorem gompertz_curve_closed_form:
  "G \<noteq> 0 \<Longrightarrow>
     gompertz_curve t G k l = Inr (G * exp (- exp ((k * exp 1 / G) * (l - t) + 1)))"
  by (simp add: gompertz_curve_def truediv_def gompertz_value_def)

theorem gompertz_curve_closed_form_witness:
  "(326.53::real) \<noteq> 0 \<and>
     gompertz_curve 10 326.53 26.96 0.43
       = Inr (326.53 * exp (- exp ((26.96 * exp 1 / 326.53) * (0.43 - 10) + 1)))"
  using gompertz_curve_closed_form [of "326.53" 10 "26.96" "0.43"] by simp

section \<open>Argument checks of the curve evaluator\<close>

text \<open>
  C4 (as amended). \<open>gompertz_curve\<close> has no validation step. It fails exactly when
  \<open>G0 = 0\<close>, with the \<open>ZeroDivisionError\<close> of the division \<open>k_max * e / G0\<close>; for every
  other \<open>G0\<close>, negative ones included, and for every \<open>k_max\<close> and \<open>lambda\<close>, negative
  ones included, it returns the closed-form value.
\<close>

theorem gompertz_curve_fails_only_at_zero:
  "(G = 0 \<longrightarrow> gompertz_curve t G k l = Inl ZeroDivisionError)
   \<and> (G \<noteq> 0 \<longrightarrow> gompertz_curve t G k l
         = Inr (G * exp (- exp ((k * exp 1 / G) * (l - t) + 1))))"
  by (simp add: gompertz_curve_def truediv_def gompertz_value_def)

theorem gompertz_curve_fails_only_at_zero_witness:
  "gompertz_curve 3 0 26.96 0.43 = Inl ZeroDivisionError
   \<and> (- 1::real) \<noteq> 0
   \<and> gompertz_curve 3 (- 1) (- 2) (- 5)
         = Inr (- 1 * exp (- exp ((- 2 * exp 1 / - 1) * (- 5 - 3) + 1)))"
  using gompertz_curve_fails_only_at_zero [of 0 3 "26.96" "0.43"]
    gompertz_curve_fails_only_at_zero [of "- 1" 3 "- 2" "- 5"]
  by simp

text \<open>
  The claim as it was written, that the evaluator fails when \<open>G0\<close> is not strictly
  positive and requires \<open>k_max \<ge> 0\<close> and \<open>lambda \<ge> 0\<close>, is false at
  \<open>G0 = k_max = lambda = -1\<close>: the call returns a value.
\<close>

theorem gompertz_curve_no_validation_counterexample:
  "\<not> (\<exists>err. gompertz_curve 0 (- 1) (- 1) (- 1) = Inl err)"
  by (simp add: gompertz_curve_def truediv_def)

section \<open>Shape of the curve\<close>

text \<open>
  In exact arithmetic the value of the curve lies strictly between 0 and \<open>G0\<close>
  (\<open>gompertz_value_bounds\<close>), it never decreases with time, and it approaches \<open>G0\<close>
  when the quotient \<open>k_max * e / G0\<close> is positive. These are properties of the
  formula. The program computes in double precision: the two exponentials saturate
  at extreme arguments (\<open>np.exp\<close> overflows to infinity, and \<open>exp\<close> of a tiny
  negative number rounds to 1), and when the product \<open>k_max * e\<close> or the quotient
  \<open>k_max * e / G0\<close> overflows, the exponent at \<open>t = lambda\<close> is infinity times zero,
  which is not a number. The theorem on the shape of the curve is therefore stated
  for parameters whose product and quotient stay far inside the range of doubles.
\<close>

lemma gompertz_value_bounds:
  "0 < G \<Longrightarrow> 0 < gompertz_value q G l t \<and> gompertz_value q G l t < G"
  by (simp add: gompertz_value_def)

lemma gompertz_value_mono:
  assumes "0 \<le> G" "0 \<le> q" "t1 \<le> t2"
  shows "gompertz_value q G l t1 \<le> gompertz_value q G l t2"
proof -
  have "q * (l - t2) \<le> q * (l - t1)"
    using assms by (intro mult_left_mono) simp_all
  then have "exp (- exp (q * (l - t1) + 1)) \<le> exp (- exp (q * (l - t2) + 1))"
    by simp
  then show ?thesis
    using assms(1) by (simp add: gompertz_value_def mult_left_mono)
qed

lemma gompertz_value_tendsto:
  assumes "0 < q"
  shows "((\<lambda>t. gompertz_value q G l t) \<longlongrightarrow> G) at_top"
proof -
  have "LIM t at_top. q * (l - t) + 1 :> at_bot"
    unfolding filterlim_at_bot eventually_at_top_linorder
  proof (intro allI)
    fix Z :: real
    have "\<forall>t \<ge> l + (1 - Z) / q. q * (l - t) + 1 \<le> Z"
    proof (intro allI impI)
      fix t assume "l + (1 - Z) / q \<le> t"
      then have "(1 - Z) / q \<le> t - l" by simp
      then have "1 - Z \<le> q * (t - l)"
        using assms by (simp add: field_simps)
      then show "q * (l - t) + 1 \<le> Z" by (simp add: algebra_simps)
    qed
    then show "\<exists>N. \<forall>t \<ge> N. q * (l - t) + 1 \<le> Z" by blast
  qed
  then have "((\<lambda>t. exp (q * (l - t) + 1)) \<longlongrightarrow> 0) at_top"
    by (rule filterlim_compose [OF exp_at_bot])
  then have "((\<lambda>t. G * exp (- exp (q * (l - t) + 1))) \<longlongrightarrow> G * exp (- 0)) at_top"
    by (intro tendsto_intros)
  then show ?thesis by (simp add: gompertz_value_def)
qed


text \<open>
  C6 (as amended). Take \<open>G0 > 0\<close>, \<open>k_max \<ge> 0\<close> and \<open>lambda \<ge> 0\<close> such that the
  product \<open>k_max * e\<close> and the quotient \<open>k_max * e / G0\<close> are at most \<open>10 ^ 300\<close>.
  Then the evaluator returns a value at every \<open>t \<ge> 0\<close>, and the value is
  non-decreasing in \<open>t\<close> on \<open>t \<ge> 0\<close>. If the quotient is at least \<open>10 ^ -300\<close>
  (so \<open>k_max > 0\<close>), the value tends to \<open>G0\<close> as \<open>t\<close> tends to infinity. If
  \<open>k_max = 0\<close>, the value is the constant \<open>G0 * exp (- e)\<close> on \<open>t \<ge> 0\<close> and does not
  tend to \<open>G0\<close>.
\<close>

theorem gompertz_monotone_and_limit_in_range:
  assumes "0 < G" "0 \<le> k" "0 \<le> l"
    and "k * exp 1 \<le> 10 ^ 300" "k * exp 1 / G \<le> 10 ^ 300"
  shows "\<exists>g. (\<forall>t\<ge>0. gompertz_curve t G k l = Inr (g t))
           \<and> (\<forall>t1 t2. 0 \<le> t1 \<and> t1 \<le> t2 \<longrightarrow> g t1 \<le> g t2)
           \<and> (1 / 10 ^ 300 \<le> k * exp 1 / G \<longrightarrow> (g \<longlongrightarrow> G) at_top)
           \<and> (k = 0 \<longrightarrow> (\<forall>t\<ge>0. g t = G * exp (- exp 1)) \<and> \<not> (g \<longlongrightarrow> G) at_top)"
proof (intro exI conjI allI impI)
  show "gompertz_curve t G k l = Inr (gompertz_value (k * exp 1 / G) G l t)" for t
    using assms by (simp add: gompertz_curve_def truediv_def)
  show "gompertz_value (k * exp 1 / G) G l t1 \<le> gompertz_value (k * exp 1 / G) G l t2"
    if "0 \<le> t1 \<and> t1 \<le> t2" for t1 t2
    using assms that by (intro gompertz_value_mono) simp_all
  show "(gompertz_value (k * exp 1 / G) G l \<longlongrightarrow> G) at_top"
    if "1 / 10 ^ 300 \<le> k * exp 1 / G"
  proof -
    have "(0::real) < 1 / 10 ^ 300" by simp
    from this that have "0 < k * exp 1 / G" by (rule less_le_trans)
    then show ?thesis by (rule gompertz_value_tendsto)
  qed
  show "gompertz_value (k * exp 1 / G) G l t = G * exp (- exp 1)" if "k = 0" for t
    using that by (simp add: gompertz_value_def)
  show "\<not> (gompertz_value (k * exp 1 / G) G l \<longlongrightarrow> G) at_top" if "k = 0"
  proof
    assume lim: "(gompertz_value (k * exp 1 / G) G l \<longlongrightarrow> G) at_top"
    have "gompertz_value (k * exp 1 / G) G l = (\<lambda>t. G * exp (- exp 1))"
      using that by (simp add: gompertz_value_def fun_eq_iff)
    with lim have "((\<lambda>t::real. G * exp (- exp 1)) \<longlongrightarrow> G) at_top"
      by simp
    then have "G * exp (- exp 1) = G"
      by (simp add: tendsto_const_iff)
    then show False using assms(1) by simp
  qed
qed

theorem gompertz_monotone_and_limit_in_range_witness:
  "(0::real) < 326.53 \<and> (0::real) \<le> 26.96 \<and> (0::real) \<le> 0.43
   \<and> 26.96 * exp 1 \<le> (10::real) ^ 300 \<and> 26.96 * exp 1 / 326.53 \<le> (10::real) ^ 300
   \<and> 1 / 10 ^ 300 \<le> 26.96 * exp 1 / (326.53::real)
   \<and> (\<exists>g. (\<forall>t\<ge>0. gompertz_curve t 326.53 26.96 0.43 = Inr (g t))
           \<and> (\<forall>t1 t2. 0 \<le> t1 \<and> t1 \<le> t2 \<longrightarrow> g t1 \<le> g t2)
           \<and> (g \<longlongrightarrow> 326.53) at_top)
   \<and> (\<exists>g. (\<forall>t\<ge>0. gompertz_curve t 326.53 0 0.43 = Inr (g t))
           \<and> (\<forall>t\<ge>0. g t = 326.53 * exp (- exp 1))
           \<and> \<not> (g \<longlongrightarrow> 326.53) at_top)"
proof -
  have e: "(1::real) \<le> exp 1" "exp 1 \<le> (3::real)"
    using exp_ge_add_one_self [of 1] exp_le by simp_all
  have a: "26.96 * exp 1 \<le> (10::real) ^ 300"
    using e by simp
  have b: "26.96 * exp 1 / 326.53 \<le> (10::real) ^ 300"
    using e by (simp add: field_simps)
  have "1 / 10 ^ 300 \<le> 26.96 * 1 / (326.53::real)"
    by simp
  also have "26.96 * 1 / (326.53::real) \<le> 26.96 * exp 1 / 326.53"
    by simp
  finally have c: "1 / 10 ^ 300 \<le> 26.96 * exp 1 / (326.53::real)" .
  have pos: "\<exists>g. (\<forall>t\<ge>0. gompertz_curve t 326.53 26.96 0.43 = Inr (g t))
           \<and> (\<forall>t1 t2. 0 \<le> t1 \<and> t1 \<le> t2 \<longrightarrow> g t1 \<le> g t2)
           \<and> (g \<longlongrightarrow> 326.53) at_top"
    using a b c gompertz_monotone_and_limit_in_range [of "326.53" "26.96" "0.43"]
    by simp
  obtain g where "\<forall>t\<ge>0. gompertz_curve t 326.53 0 0.43 = Inr (g t)"
      "\<forall>t\<ge>0. g t = 326.53 * exp (- exp 1)" "\<not> (g \<longlongrightarrow> 326.53) at_top"
    using gompertz_monotone_and_limit_in_range [of "326.53" 0 "0.43"] by auto
  then have zero: "\<exists>g. (\<forall>t\<ge>0. gompertz_curve t 326.53 0 0.43 = Inr (g t))
           \<and> (\<forall>t\<ge>0. g t = 326.53 * exp (- exp 1))
           \<and> \<not> (g \<longlongrightarrow> 326.53) at_top"
    by blast
  show ?thesis
    using a b c pos zero by simp
qed

text \<open>
  The claim as it was written includes \<open>k_max = 0\<close> among the valid parameter sets.
  There the exponent is 1 at every time, the curve is the constant \<open>G0 * exp (- e)\<close>,
  and it does not tend to \<open>G0\<close>: here with \<open>G0 = 1\<close>, \<open>lambda = 0\<close>.
\<close>

theorem gompertz_zero_rate_counterexample:
  "\<not> (\<exists>g. (\<forall>t. gompertz_curve t 1 0 0 = Inr (g t)) \<and> (g \<longlongrightarrow> 1) at_top)"
proof
  assume "\<exists>g. (\<forall>t. gompertz_curve t 1 0 0 = Inr (g t)) \<and> (g \<longlongrightarrow> 1) at_top"
  then obtain g where g: "\<forall>t. gompertz_curve t 1 0 0 = Inr (g t)" and lim: "(g \<longlongrightarrow> 1) at_top"
    by blast
  have "g = (\<lambda>t. exp (- exp 1))"
    using g by (auto simp add: gompertz_curve_def truediv_def gompertz_value_def fun_eq_iff)
  then have "((\<lambda>t::real. exp (- exp 1 :: real)) \<longlongrightarrow> 1) at_top"
    using lim by simp
  then have "exp (- exp 1 :: real) = 1"
    by (simp add: tendsto_const_iff)
  then show False by simp
qed

section \<open>Mixtures\<close>

lemma str_int_0_1: "str_int 0 = ''0''" "str_int 1 = ''1''"
  by code_simp+

text \<open>
  C2 (as amended). When the food-waste substrate has a non-zero total-solids value,
  the ratio \<open>(1, 0)\<close> gives the food-waste substrate's own pH, volatile solids, C/N,
  soluble COD and total COD; the total-solids field is the \<open>TS_target\<close> argument, not
  the substrate's value. The ratio \<open>(0, 1)\<close> does the same with cow manure.
\<close>

theorem pure_substrate_mixture:
  "(TS_percent (FW s) \<noteq> 0 \<longrightarrow>
      calc_mixture_properties (1, 0) ts (Some s) =
        Inr \<lparr> pH = pH (FW s), TS_percent = ts, VS_percent = VS_percent (FW s),
              C_N = C_N (FW s), sCOD_g_L = sCOD_g_L (FW s), tCOD_g_L = tCOD_g_L (FW s),
              ratio = ''1:0'', mix_FW_percent = 100, mix_CM_percent = 0 \<rparr>)
   \<and> (TS_percent (CM s) \<noteq> 0 \<longrightarrow>
      calc_mixture_properties (0, 1) ts (Some s) =
        Inr \<lparr> pH = pH (CM s), TS_percent = ts, VS_percent = VS_percent (CM s),
              C_N = C_N (CM s), sCOD_g_L = sCOD_g_L (CM s), tCOD_g_L = tCOD_g_L (CM s),
              ratio = ''0:1'', mix_FW_percent = 0, mix_CM_percent = 100 \<rparr>)"
  by (simp add: calc_mixture_properties_def truediv_def str_int_0_1)

theorem pure_substrate_mixture_witness:
  "TS_percent (FW SUBSTRATE_PROPERTIES) \<noteq> 0 \<and> TS_percent (CM SUBSTRATE_PROPERTIES) \<noteq> 0
   \<and> calc_mixture_properties (1, 0) 8 (Some SUBSTRATE_PROPERTIES) =
        Inr \<lparr> pH = 4.9, TS_percent = 8, VS_percent = 91.20,
              C_N = 20.79, sCOD_g_L = 74.1, tCOD_g_L = 205.8,
              ratio = ''1:0'', mix_FW_percent = 100, mix_CM_percent = 0 \<rparr>
   \<and> calc_mixture_properties (0, 1) 8 (Some SUBSTRATE_PROPERTIES) =
        Inr \<lparr> pH = 7.4, TS_percent = 8, VS_percent = 83.07,
              C_N = 8.22, sCOD_g_L = 13.5, tCOD_g_L = 51.2,
              ratio = ''0:1'', mix_FW_percent = 0, mix_CM_percent = 100 \<rparr>"
  using pure_substrate_mixture [of SUBSTRATE_PROPERTIES 8]
  by (simp add: SUBSTRATE_PROPERTIES_def)

text \<open>
  The claim as it was written lists total solids among the properties that equal the
  pure substrate's: with the default table and \<open>TS_target = 8\<close> the ratio \<open>(1, 0)\<close>
  returns total solids 8, and food waste has 27.4.
\<close>

theorem pure_food_waste_TS_counterexample:
  "\<not> (\<exists>m. calc_mixture_properties (1, 0) 8 None = Inr m
         \<and> TS_percent m = TS_percent (FW SUBSTRATE_PROPERTIES))"
  by (simp add: calc_mixture_properties_def truediv_def SUBSTRATE_PROPERTIES_def)

text \<open>
  C3 (as amended). For the ratio \<open>(0, 0)\<close>, whatever the target and the substrates,
  \<open>calc_mixture_properties\<close> raises Python's \<open>ZeroDivisionError\<close>: the total mass is
  computed, it is zero, and the first division by it (line 104) fails. No mixture
  record is built.
\<close>

theorem zero_ratio_raises_ZeroDivisionError:
  "calc_mixture_properties (0, 0) ts subs = Inl ZeroDivisionError"
  by (simp add: calc_mixture_properties_def truediv_def)

text \<open>
  The claim as it was written asks for a dedicated invalid-ratio error raised by a
  check of the ratio. The module has no such check; the error at \<open>(0, 0)\<close> is the
  arithmetic one, and it is not a \<open>ValueError\<close>, the kind this module raises for a
  bad argument.
\<close>

theorem zero_ratio_counterexample:
  "calc_mixture_properties (0, 0) 8 None = Inl ZeroDivisionError
   \<and> (\<forall>m. calc_mixture_properties (0, 0) 8 None \<noteq> Inl (ValueError m))"
  by (simp add: calc_mixture_properties_def truediv_def)

text \<open>
  C9 (as amended). Whenever \<open>calc_mixture_properties\<close> returns a record, for any
  ratio, target and substrates, the record's total-solids field is the \<open>TS_target\<close>
  argument itself, never a blended value. A record is returned for every ratio of
  non-negative parts, not both zero and each at most \<open>10 ^ 300\<close>, when both
  substrates' own total-solids values are positive.
\<close>

theorem TS_percent_of_returned_record:
  "(calc_mixture_properties r ts subs = Inr m \<longrightarrow> TS_percent m = ts)
   \<and> (0 \<le> fw \<and> 0 \<le> cm \<and> 0 < fw + cm \<and> fw \<le> 10 ^ 300 \<and> cm \<le> 10 ^ 300
        \<and> 0 < TS_percent (FW (case subs of None \<Rightarrow> SUBSTRATE_PROPERTIES | Some s \<Rightarrow> s))
        \<and> 0 < TS_percent (CM (case subs of None \<Rightarrow> SUBSTRATE_PROPERTIES | Some s \<Rightarrow> s))
      \<longrightarrow> (\<exists>m'. calc_mixture_properties (fw, cm) ts subs = Inr m' \<and> TS_percent m' = ts))"
proof (intro conjI impI)
  assume "calc_mixture_properties r ts subs = Inr m"
  then show "TS_percent m = ts"
    by (auto simp add: calc_mixture_properties_def Let_def split: sum.splits)
next
  let ?S = "case subs of None \<Rightarrow> SUBSTRATE_PROPERTIES | Some s \<Rightarrow> s"
  assume h: "0 \<le> fw \<and> 0 \<le> cm \<and> 0 < fw + cm \<and> fw \<le> 10 ^ 300 \<and> cm \<le> 10 ^ 300
        \<and> 0 < TS_percent (FW ?S) \<and> 0 < TS_percent (CM ?S)"
  then have parts: "(of_int fw :: real) + of_int cm \<noteq> 0"
    by (metis less_irrefl of_int_add of_int_eq_0_iff)
  from h have "0 < fw \<or> 0 < cm" by linarith
  then have "0 < of_int fw * TS_percent (FW ?S) + of_int cm * TS_percent (CM ?S)"
  proof
    assume "0 < fw"
    then have "0 < of_int fw * TS_percent (FW ?S)" using h by simp
    moreover have "0 \<le> of_int cm * TS_percent (CM ?S)" using h by simp
    ultimately show ?thesis by linarith
  next
    assume "0 < cm"
    then have "0 < of_int cm * TS_percent (CM ?S)" using h by simp
    moreover have "0 \<le> of_int fw * TS_percent (FW ?S)" using h by simp
    ultimately show ?thesis by linarith
  qed
  with parts show "\<exists>m'. calc_mixture_properties (fw, cm) ts subs = Inr m' \<and> TS_percent m' = ts"
    by (cases subs) (simp_all add: calc_mixture_properties_def truediv_def Let_def)
qed

theorem TS_percent_of_returned_record_witness:
  "calc_mixture_properties (1, 0) 8 None =
        Inr \<lparr> pH = 4.9, TS_percent = 8, VS_percent = 91.20,
              C_N = 20.79, sCOD_g_L = 74.1, tCOD_g_L = 205.8,
              ratio = ''1:0'', mix_FW_percent = 100, mix_CM_percent = 0 \<rparr>
   \<and> TS_percent \<lparr> pH = 4.9, TS_percent = 8, VS_percent = 91.20,
              C_N = 20.79, sCOD_g_L = 74.1, tCOD_g_L = 205.8,
              ratio = ''1:0'', mix_FW_percent = 100, mix_CM_percent = 0 \<rparr> = (8::real)
   \<and> (0::int) \<le> 6 \<and> (0::int) \<le> 2 \<and> (0::int) < 6 + 2 \<and> (6::int) \<le> 10 ^ 300 \<and> (2::int) \<le> 10 ^ 300
   \<and> 0 < TS_percent (FW SUBSTRATE_PROPERTIES) \<and> 0 < TS_percent (CM SUBSTRATE_PROPERTIES)
   \<and> (\<exists>m'. calc_mixture_properties (6, 2) 8 None = Inr m' \<and> TS_percent m' = 8)"
proof -
  have r: "calc_mixture_properties (1, 0) 8 None =
        Inr \<lparr> pH = 4.9, TS_percent = 8, VS_percent = 91.20,
              C_N = 20.79, sCOD_g_L = 74.1, tCOD_g_L = 205.8,
              ratio = ''1:0'', mix_FW_percent = 100, mix_CM_percent = 0 \<rparr>"
    by (simp add: calc_mixture_properties_def truediv_def str_int_0_1 SUBSTRATE_PROPERTIES_def)
  show ?thesis
    using r TS_percent_of_returned_record [of "(1, 0)" 8 None
        "\<lparr> pH = 4.9, TS_percent = 8, VS_percent = 91.20,
              C_N = 20.79, sCOD_g_L = 74.1, tCOD_g_L = 205.8,
              ratio = ''1:0'', mix_FW_percent = 100, mix_CM_percent = 0 \<rparr>" 6 2]
    by (simp add: SUBSTRATE_PROPERTIES_def)
qed

text \<open>
  The claim as it was written promises the record for every ratio with positive
  total mass. The ratio \<open>(1, -1)\<close> has positive total mass with the default table
  (27.4 - 19.2), but its parts sum to zero: the division by \<open>total_parts\<close> (line
  110) raises, and no record is returned.
\<close>

theorem positive_mass_zero_parts_counterexample:
  "0 < of_int 1 * TS_percent (FW SUBSTRATE_PROPERTIES)
         + of_int (- 1) * TS_percent (CM SUBSTRATE_PROPERTIES)
   \<and> \<not> (\<exists>m. calc_mixture_properties (1, - 1) 8 None = Inr m \<and> TS_percent m = 8)"
  by (simp add: calc_mixture_properties_def truediv_def SUBSTRATE_PROPERTIES_def)

section \<open>The simulation driver\<close>

text \<open>
  C5. A ratio name that is not a key of the parameter table (the default table, or
  the one passed as \<open>params\<close>) makes \<open>simulate\<close> raise the \<open>ValueError\<close> whose
  message carries the name and the list of the table's keys. This holds for every
  \<open>t_max\<close> and \<open>n_points\<close>, also those for which the time grid could not be built:
  the lookup comes first, and no time grid or yield array is returned.
\<close>

theorem simulate_unknown_ratio:
  "ratio_name \<notin> set (map fst (case params of None \<Rightarrow> GOMPERTZ_PARAMS | Some p \<Rightarrow> p)) \<Longrightarrow>
     simulate ratio_name tm np params subs =
       Inl (ValueError (Unknown_ratio ratio_name
              (map fst (case params of None \<Rightarrow> GOMPERTZ_PARAMS | Some p \<Rightarrow> p))))"
proof -
  assume "ratio_name \<notin> set (map fst (case params of None \<Rightarrow> GOMPERTZ_PARAMS | Some p \<Rightarrow> p))"
  then have "map_of (case params of None \<Rightarrow> GOMPERTZ_PARAMS | Some p \<Rightarrow> p) ratio_name = None"
    by (simp add: map_of_eq_None_iff)
  then show ?thesis
    by (simp add: simulate_def Let_def)
qed

theorem simulate_unknown_ratio_witness:
  "''Ratio-3_5'' \<notin> set (map fst GOMPERTZ_PARAMS) \<and>
   simulate ''Ratio-3_5'' None (Some (- 4)) None None =
     Inl (ValueError (Unknown_ratio ''Ratio-3_5''
       [''Ratio-8_0'', ''Ratio-7_1'', ''Ratio-6_2'', ''Ratio-4_4'', ''Ratio-2_6'', ''Ratio-1_7'']))"
  using simulate_unknown_ratio [of "''Ratio-3_5''" None None "Some (- 4)" None]
  by (simp add: GOMPERTZ_PARAMS_def)

subsection \<open>The final yield of the optimal ratio\<close>

text \<open>
  Rational bounds on \<open>e\<close> and on the two exponentials of the last grid point, from
  \<open>(1 + x / n) ^ n \<le> exp x\<close> with \<open>n = 64\<close>.
\<close>

lemma exp_1_lower: "(2.69::real) \<le> exp 1"
proof -
  have "(1 + 1 / of_nat 64) ^ 64 \<le> exp (1::real)"
    by (rule exp_ge_one_plus_x_over_n_power_n) simp_all
  moreover have "(2.69::real) \<le> (1 + 1 / of_nat 64) ^ 64"
    by (simp add: power_divide)
  ultimately show ?thesis by linarith
qed

lemma exp_1_upper: "exp 1 \<le> (2.74::real)"
proof -
  have "(1 + (- 1) / of_nat 64) ^ 64 \<le> exp (- 1::real)"
    by (rule exp_ge_one_plus_x_over_n_power_n) simp_all
  moreover have "(1 / 2.74::real) \<le> (1 + (- 1) / of_nat 64) ^ 64"
    by (simp add: power_divide)
  ultimately have "1 / 2.74 \<le> exp (- 1::real)" by linarith
  then have "1 / 2.74 \<le> 1 / exp (1::real)" by (simp add: exp_minus inverse_eq_divide)
  then have "exp (1::real) \<le> 2.74"
    by (simp add: field_simps)
  then show ?thesis .
qed

lemma final_exponent_bounds:
  "- 4.56 \<le> (26.96 * exp 1 / 326.53) * (0.43 - 25) + (1::real)"
  "(26.96 * exp 1 / 326.53) * (0.43 - 25) + (1::real) \<le> - 4.457"
  using exp_1_lower exp_1_upper by (simp_all add: field_simps)

lemma exp_lower_456: "(0.0088::real) \<le> exp (- 4.56)"
proof -
  have "(1 + (- 4.56) / of_nat 64) ^ 64 \<le> exp (- 4.56::real)"
    by (rule exp_ge_one_plus_x_over_n_power_n) simp_all
  moreover have "(0.0088::real) \<le> (1 + (- 4.56) / of_nat 64) ^ 64"
    by (simp add: power_divide)
  ultimately show ?thesis by linarith
qed

lemma exp_upper_4457: "exp (- 4.457) \<le> (0.0135::real)"
proof -
  have "(1 + 4.457 / of_nat 64) ^ 64 \<le> exp (4.457::real)"
    by (rule exp_ge_one_plus_x_over_n_power_n) simp_all
  moreover have "(1 / 0.0135::real) \<le> (1 + 4.457 / of_nat 64) ^ 64"
    by (simp add: power_divide)
  ultimately have "1 / 0.0135 \<le> exp (4.457::real)" by linarith
  then have "1 / exp (4.457::real) \<le> 0.0135"
    by (simp add: field_simps)
  then show ?thesis by (simp add: exp_minus inverse_eq_divide)
qed

lemma final_value_bounds:
  "322 < gompertz_value (26.96 * exp 1 / 326.53) 326.53 0.43 25"
  "gompertz_value (26.96 * exp 1 / 326.53) 326.53 0.43 25 < 324"
proof -
  define x :: real where "x = (26.96 * exp 1 / 326.53) * (0.43 - 25) + 1"
  define y where "y = exp x"
  have x: "- 4.56 \<le> x" "x \<le> - 4.457"
    using final_exponent_bounds by (simp_all add: x_def)
  have "exp (- 4.56) \<le> y" "y \<le> exp (- 4.457)"
    using x by (simp_all add: y_def)
  then have y: "0.0088 \<le> y" "y \<le> 0.0135"
    using exp_lower_456 exp_upper_4457 by linarith+
  have lo: "1 - y \<le> exp (- y)"
    using exp_ge_add_one_self [of "- y"] by simp
  have "1 + y \<le> exp y" by simp
  then have "1 / exp y \<le> 1 / (1 + y)"
    using y by (intro divide_left_mono) (simp_all add: add_pos_pos)
  then have hi: "exp (- y) \<le> 1 / (1 + y)"
    by (simp add: exp_minus inverse_eq_divide)
  have "1 / (1 + y) \<le> 1 / (1 + 0.0088)"
    using y by (intro divide_left_mono) simp_all
  with hi have hi': "exp (- y) \<le> 1 / 1.0088" by simp
  have val: "gompertz_value (26.96 * exp 1 / 326.53) 326.53 0.43 25 = 326.53 * exp (- y)"
    by (simp add: gompertz_value_def y_def x_def)
  have "0.9865 \<le> exp (- y)"
    using lo y by simp
  then show "322 < gompertz_value (26.96 * exp 1 / 326.53) 326.53 0.43 25"
    unfolding val by simp
  show "gompertz_value (26.96 * exp 1 / 326.53) 326.53 0.43 25 < 324"
    using hi' unfolding val by (simp add: field_simps)
qed

lemma linspace_last:
  "1 < num \<Longrightarrow> \<exists>ts. linspace a b num = Inr ts \<and> length ts = nat num \<and> last ts = b"
  by (simp add: linspace_def Let_def last_list_update)

lemma gompertz_curve_array_ok:
  "G \<noteq> 0 \<Longrightarrow> gompertz_curve_array ts G k l = Inr (map (gompertz_value (k * exp 1 / G) G l) ts)"
  by (simp add: gompertz_curve_array_def truediv_def)

lemma simulate_optimum_final:
  "\<exists>t G. simulate ''Ratio-6_2'' (Some 25) (Some 200) None None = Inr (t, G)
      \<and> length G = 200
      \<and> last G = gompertz_value (26.96 * exp 1 / 326.53) 326.53 0.43 25"
proof -
  obtain ts where ts: "linspace 0 25 200 = Inr ts" "length ts = 200" "last ts = 25"
    using linspace_last [of 200 0 25] by auto
  then have ne: "ts \<noteq> []" by auto
  have look: "map_of GOMPERTZ_PARAMS ''Ratio-6_2''
      = Some \<lparr> G0 = 326.53, k_max = 26.96, lambda = 0.43, FW_percent = 75.0,
          description = [CHR 0xD3] @ ''TIMO: RA 75% + EB 25%'' \<rparr>"
    by (simp add: GOMPERTZ_PARAMS_def)
  have "simulate ''Ratio-6_2'' (Some 25) (Some 200) None None
      = Inr (ts, map (gompertz_value (26.96 * exp 1 / 326.53) 326.53 0.43) ts)"
    by (simp add: simulate_def look ts gompertz_curve_array_ok)
  then show ?thesis using ts ne by (simp add: last_map)
qed


text \<open>
  C8 (as amended). \<open>simulate('Ratio-6_2')\<close> with \<open>t_max = 25\<close> and \<open>n_points = 200\<close>
  returns 200 yields, and the last one lies strictly between 322 and 324 (the
  docstring prints it as 323.0): strictly below \<open>G0 = 326.53\<close>, by more than 2.5.
\<close>

theorem simulate_optimum_final_yield:
  "\<exists>t G. simulate ''Ratio-6_2'' (Some 25) (Some 200) None None = Inr (t, G)
      \<and> length G = 200 \<and> 322 < last G \<and> last G < 324 \<and> last G < 326.53"
  using simulate_optimum_final final_value_bounds by fastforce


text \<open>
  The claim as it was written puts the last yield within floating tolerance of
  \<open>G0\<close>. It is more than 2 away from it: at day 25 the curve is at about 98.9 per
  cent of its asymptote.
\<close>

theorem simulate_optimum_final_counterexample:
  "\<not> (\<exists>t G. simulate ''Ratio-6_2'' (Some 25) (Some 200) None None = Inr (t, G)
         \<and> \<bar>last G - 326.53\<bar> \<le> 2)"
  using simulate_optimum_final final_value_bounds(2) by fastforce

end
